theory Spec2Isabelle
  imports Main "HOL-Library.AList"
begin

section \<open>JavaScript values\<close>

text \<open>
  The adapters work on parsed JSON and form bodies, so payloads are untyped JavaScript
  values. Numbers are modelled as unbounded integers (no fractions, no NaN), a string as
  the bytes of its UTF-8 encoding, and an object as the association list of its own
  properties in insertion order, read through \<open>map_of\<close> (the first binding of a key
  is the property). Every object has the prototype that \<open>JSON.parse\<close> gives it;
  the one assignment that would change a prototype is refused by \<open>setp\<close> below.
\<close>

datatype jsval =
    JUndefined
  | JNull
  | JBool bool
  | JNum int
  | JStr string
  | JArr "jsval list"
  | JObj "(string \<times> jsval) list"

text \<open>
  What a promise can be rejected with: a \<open>TypeError\<close> of the runtime, an
  \<open>Error\<close> made by the adapters with its message, or any value thrown by a collaborator
  (the logic callback, the transport). \<open>Unmodelled\<close> marks the few inputs whose
  JavaScript behaviour is outside this model; nothing is claimed about them.
\<close>

datatype js_error = TypeError | Error string | Thrown jsval | Unmodelled

text \<open>\<open>if (v)\<close>, \<open>!v\<close>, \<open>a && b\<close>, \<open>a || b\<close> test truthiness.\<close>

fun truthy :: "jsval \<Rightarrow> bool" where
  "truthy JUndefined = False"
| "truthy JNull = False"
| "truthy (JBool b) = b"
| "truthy (JNum n) = (n \<noteq> 0)"
| "truthy (JStr s) = (s \<noteq> [])"
| "truthy (JArr xs) = True"
| "truthy (JObj kvs) = True"

fun nullish :: "jsval \<Rightarrow> bool" where
  "nullish JUndefined = True"
| "nullish JNull = True"
| "nullish v = False"

text \<open>
  \<open>js_prop v k\<close> is the own property \<open>k\<close> of a value that is neither
  \<open>undefined\<close> nor \<open>null\<close>: the property of an object, the length of an array or a
  string (in bytes), and \<open>undefined\<close> otherwise. For the names the adapters read this
  is \<open>v.k\<close>: none of them is inherited from a prototype, and they read no index
  through it. \<open>getp\<close> is the read itself: on \<open>undefined\<close> and \<open>null\<close> it throws.
\<close>

fun js_prop :: "jsval \<Rightarrow> string \<Rightarrow> jsval" where
  "js_prop (JObj kvs) k = (case map_of kvs k of None \<Rightarrow> JUndefined | Some v \<Rightarrow> v)"
| "js_prop (JArr xs) k = (if k = ''length'' then JNum (int (length xs)) else JUndefined)"
| "js_prop (JStr s) k = (if k = ''length'' then JNum (int (length s)) else JUndefined)"
| "js_prop v k = JUndefined"

definition getp :: "jsval \<Rightarrow> string \<Rightarrow> js_error + jsval" where
  "getp v k = (if nullish v then Inl TypeError else Inr (js_prop v k))"

text \<open>
  \<open>v[k] = x\<close> in strict mode (both adapters start with \<open>"use strict"\<close>): an object gets
  or replaces the own property, anything that is not an object throws. Assigning to
  \<open>__proto__\<close> would replace the prototype instead, and an array could take a named
  property; the model has no place for either.
\<close>

fun setp :: "jsval \<Rightarrow> string \<Rightarrow> jsval \<Rightarrow> js_error + jsval" where
  "setp (JObj kvs) k x =
     (if k = ''__proto__'' then Inl Unmodelled else Inr (JObj (AList.update k x kvs)))"
| "setp (JArr xs) k x = Inl Unmodelled"
| "setp v k x = Inl TypeError"

text \<open>
  \<open>for (i = 0; i < v.length; i++) ... v[i]\<close>: the elements the loop visits. It throws on
  \<open>undefined\<close> and \<open>null\<close>, visits the elements of an array and the characters of a
  string, and nothing where \<open>length\<close> is \<open>undefined\<close>. An object that carries its own
  \<open>length\<close>, and a string with characters beyond ASCII (whose JavaScript characters
  are not its bytes), are outside the model.
\<close>

definition is_ascii :: "string \<Rightarrow> bool" where
  "is_ascii s = list_all (\<lambda>c. (of_char c :: nat) < 128) s"

fun elems :: "jsval \<Rightarrow> js_error + jsval list" where
  "elems JUndefined = Inl TypeError"
| "elems JNull = Inl TypeError"
| "elems (JArr xs) = Inr xs"
| "elems (JStr s) = (if is_ascii s then Inr (map (\<lambda>c. JStr [c]) s) else Inl Unmodelled)"
| "elems (JObj kvs) = (if map_of kvs ''length'' = None then Inr [] else Inl Unmodelled)"
| "elems v = Inr []"

text \<open>Sequencing of steps that may throw.\<close>

definition bindE :: "js_error + 'a \<Rightarrow> ('a \<Rightarrow> js_error + 'b) \<Rightarrow> js_error + 'b" where
  "bindE m f = (case m of Inl e \<Rightarrow> Inl e | Inr x \<Rightarrow> f x)"

subsection \<open>parseInt\<close>

text \<open>
  The built-in \<open>parseInt(x)\<close> with no radix: leading white space, a sign, an optional
  \<open>0x\<close>, then the longest run of digits; \<open>None\<close> is NaN. A value that is not a
  string is converted to one first: a number prints as itself (from \<open>1e21\<close> on
  JavaScript prints an exponent and parses the digits before it; the sign is the same),
  an array as its elements joined by commas (so only the first element is read, and an
  empty, \<open>null\<close> or \<open>undefined\<close> one prints as nothing), everything else prints as a
  word that is not a number.

  White space is what ECMAScript strips: tab, line feed, vertical tab, form feed,
  carriage return, space, and in UTF-8 the no-break space (C2 A0), U+1680 (E1 9A 80),
  U+2000 to U+200A, U+2028, U+2029 and U+202F (E2 80 80..8A, A8, A9, AF), U+205F
  (E2 81 9F), U+3000 (E3 80 80) and the byte order mark (EF BB BF). \<open>space_len\<close> is
  the number of bytes of the white space character a string starts with, or 0.
\<close>

definition ascii_space :: "nat \<Rightarrow> bool" where
  "ascii_space a = (a = 32 \<or> a = 9 \<or> a = 10 \<or> a = 11 \<or> a = 12 \<or> a = 13)"

fun space_len :: "nat list \<Rightarrow> nat" where
  "space_len [] = 0"
| "space_len [a] = (if ascii_space a then 1 else 0)"
| "space_len [a, b] = (if ascii_space a then 1 else if a = 194 \<and> b = 160 then 2 else 0)"
| "space_len (a # b # c # r) =
     (if ascii_space a then 1
      else if a = 194 \<and> b = 160 then 2
      else if a = 225 \<and> b = 154 \<and> c = 128 then 3
      else if a = 226 \<and> b = 128
                \<and> ((128 \<le> c \<and> c \<le> 138) \<or> c = 168 \<or> c = 169 \<or> c = 175) then 3
      else if a = 226 \<and> b = 129 \<and> c = 159 then 3
      else if a = 227 \<and> b = 128 \<and> c = 128 then 3
      else if a = 239 \<and> b = 187 \<and> c = 191 then 3
      else 0)"

fun trim_fuel :: "nat \<Rightarrow> string \<Rightarrow> string" where
  "trim_fuel 0 s = s"
| "trim_fuel (Suc n) s =
     (let k = space_len (map of_char s) in if k = 0 then s else trim_fuel n (drop k s))"

text \<open>
  Each step drops at least one byte, so the length of the string is fuel enough to strip
  all leading white space.
\<close>

definition trim_start :: "string \<Rightarrow> string" where
  "trim_start s = trim_fuel (length s) s"

definition digit_val :: "char \<Rightarrow> nat option" where
  "digit_val c =
     (let n = (of_char c :: nat) in
      if 48 \<le> n \<and> n \<le> 57 then Some (n - 48)
      else if 97 \<le> n \<and> n \<le> 102 then Some (n - 87)
      else if 65 \<le> n \<and> n \<le> 70 then Some (n - 55)
      else None)"

definition is_digit :: "nat \<Rightarrow> char \<Rightarrow> bool" where
  "is_digit radix c = (case digit_val c of None \<Rightarrow> False | Some d \<Rightarrow> d < radix)"

definition digits_value :: "nat \<Rightarrow> string \<Rightarrow> nat" where
  "digits_value radix ds = foldl (\<lambda>acc c. acc * radix + the (digit_val c)) 0 ds"

definition parseInt_str :: "string \<Rightarrow> int option" where
  "parseInt_str s =
     (let s1 = trim_start s;
          neg = (s1 \<noteq> [] \<and> hd s1 = CHR ''-'');
          s2 = (if s1 \<noteq> [] \<and> (hd s1 = CHR ''-'' \<or> hd s1 = CHR ''+'') then tl s1 else s1);
          hex = (case s2 of
                   a # b # r \<Rightarrow> a = CHR ''0'' \<and> (b = CHR ''x'' \<or> b = CHR ''X'')
                 | _ \<Rightarrow> False);
          radix = (if hex then 16 else 10);
          s3 = (if hex then drop 2 s2 else s2);
          ds = takeWhile (is_digit radix) s3
      in if ds = [] then None
         else Some ((if neg then - 1 else 1) * int (digits_value radix ds)))"

fun parseInt :: "jsval \<Rightarrow> int option" where
  "parseInt (JStr s) = parseInt_str s"
| "parseInt (JNum n) = Some n"
| "parseInt (JArr (x # xs)) = parseInt x"
| "parseInt v = None"

section \<open>Activities, requests and responses\<close>

datatype activity_type = Message | Event | OtherType string

text \<open>
  The fields of a BotBuilder Activity that the adapters set and read, with the nested
  objects \<open>conversation\<close>, \<open>from\<close> and \<open>recipient\<close> flattened into their
  fields; a field that an adapter does not set is \<open>undefined\<close>. The \<open>timestamp\<close>
  (\<open>new Date()\<close>) is left out: no adapter reads it back.
\<close>

record activity =
  act_id :: jsval
  channelId :: string
  conversation_id :: jsval
  from_id :: jsval
  from_name :: jsval
  recipient_id :: jsval
  recipient_name :: jsval
  act_text :: jsval
  channelData :: jsval
  act_type :: activity_type


text \<open>
  A request as Express and Restify hand it over. \<open>headers\<close> may be missing (the Twilio
  adapter tests for it); \<open>header\<close> is the method \<open>req.header(name)\<close>.
\<close>

record request =
  headers :: "(string \<Rightarrow> string option) option"
  header :: "string \<Rightarrow> string option"
  protocol :: "string option"
  hostname :: "string option"
  originalUrl :: "string option"
  rawBody :: "string option"
  body :: jsval

text \<open>
  The response object: \<open>res.status(c)\<close> sets the code, \<open>res.send(b)\<close> sends a body and
  finishes the response, \<open>res.end()\<close> finishes it with no body.
\<close>

record response =
  statusCode :: jsval
  sent :: "jsval option"
  ended :: bool

definition res_status :: "jsval \<Rightarrow> response \<Rightarrow> response" where
  "res_status c r = r\<lparr>statusCode := c\<rparr>"

definition res_send :: "jsval \<Rightarrow> response \<Rightarrow> response" where
  "res_send b r = r\<lparr>sent := Some b, ended := True\<rparr>"

definition res_end :: "response \<Rightarrow> response" where
  "res_end r = r\<lparr>ended := True\<rparr>"

text \<open>
  The per-turn state of a TurnContext is a Map. The logic callback gets the activity and
  the turn state; it returns the turn state it leaves, or throws. \<open>runMiddleware\<close> of the
  BotBuilder base class, with no middleware registered, calls it once.
\<close>

type_synonym turn_state = "string \<Rightarrow> jsval option"

type_synonym logic = "activity \<Rightarrow> turn_state \<Rightarrow> js_error + turn_state"

text \<open>
  What a call of \<open>processActivity\<close> leaves behind: how its promise settled, the response
  object, and the activities the logic callback was invoked with, in order.
\<close>

record outcome =
  settled :: "js_error + unit"
  resp :: response
  calls :: "activity list"

text \<open>String concatenation prints a missing operand as the word undefined.\<close>

definition str_of :: "string option \<Rightarrow> string" where
  "str_of s = (case s of None \<Rightarrow> ''undefined'' | Some x \<Rightarrow> x)"

section \<open>Twilio SMS adapter\<close>

record twilio_options =
  twilio_number :: string
  account_sid :: string
  auth_token :: string
  validation_url :: "string option"

text \<open>
  \<open>Twilio.validateRequest(authToken, signature, url, params)\<close> belongs to the Twilio
  SDK; it is a parameter of the model.
\<close>

type_synonym validateRequest = "string \<Rightarrow> string \<Rightarrow> string \<Rightarrow> jsval \<Rightarrow> bool"

text \<open>
  \<open>verifySignature\<close>. In the Restify branch \<open>req.headers\<close> is missing, so unless a
  validation URL is configured the expression \<open>req.headers['x-forwarded-proto']\<close> throws
  before anything else of the URL is computed.
\<close>

definition twilio_validation_url :: "twilio_options \<Rightarrow> string option" where
  "twilio_validation_url opts =
     (case validation_url opts of
        Some u \<Rightarrow> if u \<noteq> [] then Some u else None
      | None \<Rightarrow> None)"

definition twilio_reject :: "response \<Rightarrow> response" where
  "twilio_reject res =
     res_send (JObj [(''error'', JStr ''Invalid signature.'')]) (res_status (JNum 400) res)"

definition twilio_verifySignature ::
  "validateRequest \<Rightarrow> twilio_options \<Rightarrow> request \<Rightarrow> response \<Rightarrow> (js_error + bool) \<times> response" where
  "twilio_verifySignature validate opts req res =
     (let sig_url =
        (case headers req of
           None \<Rightarrow>
             (case twilio_validation_url opts of
                Some u \<Rightarrow> Inr (header req ''x-twilio-signature'', u)
              | None \<Rightarrow> Inl TypeError)
         | Some h \<Rightarrow>
             Inr (h ''x-twilio-signature'',
                  (case twilio_validation_url opts of
                     Some u \<Rightarrow> u
                   | None \<Rightarrow>
                       (case h ''x-forwarded-proto'' of
                          Some p \<Rightarrow> if p \<noteq> [] then p else str_of (protocol req)
                        | None \<Rightarrow> str_of (protocol req))
                       @ ''://'' @ str_of (hostname req) @ str_of (originalUrl req))))
      in case sig_url of
           Inl e \<Rightarrow> (Inl e, res)
         | Inr (twilioSignature, url) \<Rightarrow>
             (case twilioSignature of
                Some s \<Rightarrow>
                  if s \<noteq> [] \<and> validate (auth_token opts) s url (body req) then (Inr True, res)
                  else (Inr False, twilio_reject res)
              | None \<Rightarrow> (Inr False, twilio_reject res)))"

text \<open>
  The activity that \<open>processActivity\<close> builds from the parsed body. \<open>channelData\<close> is
  the body object itself, so the tag written into \<open>activity.channelData\<close> is written into
  the body.
\<close>

definition twilio_has_media :: "jsval \<Rightarrow> bool" where
  "twilio_has_media event =
     (truthy (js_prop event ''NumMedia'') \<and>
      (case parseInt (js_prop event ''NumMedia'') of None \<Rightarrow> False | Some n \<Rightarrow> 0 < n))"

definition twilio_inbound :: "jsval \<Rightarrow> js_error + activity" where
  "twilio_inbound event =
     (if nullish event then Inl TypeError
      else
        let a = \<lparr>act_id = js_prop event ''MessageSid'',
                 channelId = ''twilio-sms'',
                 conversation_id = js_prop event ''From'',
                 from_id = js_prop event ''From'',
                 from_name = JUndefined,
                 recipient_id = js_prop event ''To'',
                 recipient_name = JUndefined,
                 act_text = js_prop event ''Body'',
                 channelData = event,
                 act_type = Message\<rparr>
        in if twilio_has_media event
           then bindE (setp event ''botkitEventType'' (JStr ''picture_message''))
                  (\<lambda>cd. Inr (a\<lparr>channelData := cd\<rparr>))
           else Inr a)"

definition ts_get :: "turn_state \<Rightarrow> string \<Rightarrow> jsval" where
  "ts_get ts k = (case ts k of None \<Rightarrow> JUndefined | Some v \<Rightarrow> v)"

definition twilio_respond :: "turn_state \<Rightarrow> response \<Rightarrow> response" where
  "twilio_respond ts res =
     (let r = res_status (ts_get ts ''httpStatus'') res
      in if truthy (ts_get ts ''httpBody'') then res_send (ts_get ts ''httpBody'') r
         else res_end r)"

definition twilio_processActivity ::
  "validateRequest \<Rightarrow> twilio_options \<Rightarrow> logic \<Rightarrow> request \<Rightarrow> response \<Rightarrow> outcome" where
  "twilio_processActivity validate opts lg req res =
     (case twilio_verifySignature validate opts req res of
        (Inl e, r) \<Rightarrow> \<lparr>settled = Inl e, resp = r, calls = []\<rparr>
      | (Inr ok, r) \<Rightarrow>
          if ok then
            (case twilio_inbound (body req) of
               Inl e \<Rightarrow> \<lparr>settled = Inl e, resp = r, calls = []\<rparr>
             | Inr a \<Rightarrow>
                 (case lg a (Map.empty(''httpStatus'' \<mapsto> JNum 200)) of
                    Inl e \<Rightarrow> \<lparr>settled = Inl e, resp = r, calls = [a]\<rparr>
                  | Inr ts \<Rightarrow> \<lparr>settled = Inr (), resp = twilio_respond ts r, calls = [a]\<rparr>))
          else \<lparr>settled = Inr (), resp = r, calls = []\<rparr>)"

text \<open>The outbound message of \<open>activityToTwilio\<close>.\<close>

record twilio_message =
  msg_body :: jsval
  msg_from :: string
  msg_to :: jsval
  mediaUrl :: jsval

definition activityToTwilio :: "twilio_options \<Rightarrow> activity \<Rightarrow> twilio_message" where
  "activityToTwilio opts a =
     \<lparr>msg_body = act_text a,
      msg_from = twilio_number opts,
      msg_to = conversation_id a,
      mediaUrl = (if truthy (channelData a) \<and> truthy (js_prop (channelData a) ''mediaUrl'')
                  then js_prop (channelData a) ''mediaUrl'' else JUndefined)\<rparr>"




section \<open>Facebook Messenger adapter\<close>

text \<open>
  The options after construction: the constructor has filled in \<open>api_host\<close> and
  \<open>api_version\<close>, and has refused a missing \<open>app_secret\<close>. The page token callback
  resolves to a token (possibly none) or rejects.
\<close>

record facebook_options =
  api_host :: string
  api_version :: string
  verify_token :: "string option"
  app_secret :: string
  access_token :: "string option"
  getAccessTokenForPage :: "(jsval \<Rightarrow> js_error + string option) option"

text \<open>
  \<open>crypto.createHmac(alg, key).update(data).digest('hex')\<close> belongs to Node; the keyed
  digest is a parameter that maps the key and the data to the hex string.
\<close>

type_synonym hmac_hex = "string \<Rightarrow> string \<Rightarrow> string"

subsection \<open>Signature check\<close>

definition facebook_verifySignature ::
  "hmac_hex \<Rightarrow> facebook_options \<Rightarrow> request \<Rightarrow> response \<Rightarrow> (js_error + bool) \<times> response" where
  "facebook_verifySignature hmac_sha1 opts req res =
     (case headers req of
        None \<Rightarrow> (Inl TypeError, res)
      | Some h \<Rightarrow>
          (case rawBody req of
             None \<Rightarrow> (Inl TypeError, res)
           | Some raw \<Rightarrow>
               (let expected = h ''x-hub-signature'';
                    calculated = ''sha1='' @ hmac_sha1 (app_secret opts) raw
                in if expected \<noteq> Some calculated
                   then (Inl (Error ''Invalid signature on incoming request''),
                         res_status (JNum 401) res)
                   else (Inr True, res))))"

subsection \<open>Inbound translation\<close>

text \<open>
  The Checkbox plug-in sends no \<open>sender\<close>; it is filled in from \<open>optin.user_ref\<close>.
\<close>

definition facebook_backfill :: "jsval \<Rightarrow> js_error + jsval" where
  "facebook_backfill message =
     bindE (getp message ''sender'') (\<lambda>sender.
       if \<not> truthy sender \<and> truthy (js_prop message ''optin'')
            \<and> truthy (js_prop (js_prop message ''optin'') ''user_ref'')
       then setp message ''sender''
              (JObj [(''id'', js_prop (js_prop message ''optin'') ''user_ref'')])
       else Inr message)"

text \<open>
  \<open>for (let key in v)\<close>: the keys of an object in insertion order, none for a number
  or a boolean. JavaScript visits integer-like keys first; the order only matters to
  \<open>copy_fields\<close> below when one of the keys is \<open>message\<close>, so an object that has
  both the key \<open>message\<close> and a key made of digits is outside the model, as are the
  index keys of a non-empty string or array.
\<close>

definition digits_only :: "string \<Rightarrow> bool" where
  "digits_only k = (k \<noteq> [] \<and> list_all (\<lambda>c. 48 \<le> (of_char c :: nat) \<and> (of_char c :: nat) \<le> 57) k)"

fun for_in_keys :: "jsval \<Rightarrow> js_error + string list" where
  "for_in_keys (JObj kvs) =
     (if ''message'' \<in> set (map fst kvs) \<and> list_ex digits_only (map fst kvs)
      then Inl Unmodelled else Inr (map fst kvs))"
| "for_in_keys (JStr s) = (if s = [] then Inr [] else Inl Unmodelled)"
| "for_in_keys (JArr xs) = (if xs = [] then Inr [] else Inl Unmodelled)"
| "for_in_keys v = Inr []"

text \<open>
  \<open>activity.channelData[key] = message.message[key]\<close> for each key. \<open>channelData\<close> and
  \<open>message\<close> are one object, so each step reads \<open>message\<close> from the object as the
  steps before have left it.
\<close>

fun copy_fields :: "string list \<Rightarrow> jsval \<Rightarrow> js_error + jsval" where
  "copy_fields [] cd = Inr cd"
| "copy_fields (k # ks) cd =
     bindE (getp (js_prop cd ''message'') k) (\<lambda>v.
       bindE (setp cd k v) (copy_fields ks))"

text \<open>The activity that \<open>processSingleMessage\<close> builds.\<close>

definition facebook_inbound :: "jsval \<Rightarrow> js_error + activity" where
  "facebook_inbound message =
     bindE (facebook_backfill message) (\<lambda>m.
     bindE (getp (js_prop m ''sender'') ''id'') (\<lambda>sid.
     bindE (getp (js_prop m ''recipient'') ''id'') (\<lambda>rid.
       let a = \<lparr>act_id = JUndefined,
                channelId = ''facebook'',
                conversation_id = sid,
                from_id = sid,
                from_name = sid,
                recipient_id = rid,
                recipient_name = rid,
                act_text = JNull,
                channelData = m,
                act_type = Event\<rparr>;
           mm = js_prop m ''message''
       in if truthy mm then
            bindE (for_in_keys mm) (\<lambda>keys.
            bindE (copy_fields keys m) (\<lambda>cd.
              Inr (a\<lparr>act_type := (if truthy (js_prop mm ''is_echo'') then Event else Message),
                     act_text := js_prop mm ''text'',
                     channelData := cd\<rparr>)))
          else if truthy (js_prop m ''postback'') then
            Inr (a\<lparr>act_type := Message,
                   act_text := js_prop (js_prop m ''postback'') ''payload''\<rparr>)
          else Inr a)))"

text \<open>
  \<open>processSingleMessage\<close>: build the activity and run the logic on a fresh context. The
  list is the record of the invocations made so far.
\<close>

definition processSingleMessage ::
  "logic \<Rightarrow> jsval \<Rightarrow> activity list \<Rightarrow> (js_error + unit) \<times> activity list" where
  "processSingleMessage lg message sofar =
     (case facebook_inbound message of
        Inl e \<Rightarrow> (Inl e, sofar)
      | Inr a \<Rightarrow>
          (case lg a Map.empty of
             Inl e \<Rightarrow> (Inl e, sofar @ [a])
           | Inr ts \<Rightarrow> (Inr (), sofar @ [a])))"

fun facebook_message_loop ::
  "logic \<Rightarrow> jsval list \<Rightarrow> activity list \<Rightarrow> (js_error + unit) \<times> activity list" where
  "facebook_message_loop lg [] sofar = (Inr (), sofar)"
| "facebook_message_loop lg (m # ms) sofar =
     (case processSingleMessage lg m sofar of
        (Inl e, d) \<Rightarrow> (Inl e, d)
      | (Inr u, d) \<Rightarrow> facebook_message_loop lg ms d)"

fun facebook_standby_loop ::
  "logic \<Rightarrow> jsval list \<Rightarrow> activity list \<Rightarrow> (js_error + unit) \<times> activity list" where
  "facebook_standby_loop lg [] sofar = (Inr (), sofar)"
| "facebook_standby_loop lg (m # ms) sofar =
     (case setp m ''standby'' (JBool True) of
        Inl e \<Rightarrow> (Inl e, sofar)
      | Inr message \<Rightarrow>
          (case processSingleMessage lg message sofar of
             (Inl e, d) \<Rightarrow> (Inl e, d)
           | (Inr u, d) \<Rightarrow> facebook_standby_loop lg ms d))"

text \<open>
  The body of the loop over \<open>event.entry\<close>. The standby branch reads the property
  \<open>standyby\<close>, as the source spells it.
\<close>

definition facebook_entry ::
  "logic \<Rightarrow> jsval \<Rightarrow> activity list \<Rightarrow> (js_error + unit) \<times> activity list" where
  "facebook_entry lg entry sofar =
     (case getp entry ''changes'' of
        Inl e \<Rightarrow> (Inl e, sofar)
      | Inr changes \<Rightarrow>
          (let payload = (if truthy changes then changes
                          else if truthy (js_prop entry ''messaging'')
                          then js_prop entry ''messaging'' else JNull)
           in case elems payload of
                Inl e \<Rightarrow> (Inl e, sofar)
              | Inr ms \<Rightarrow>
                  (case facebook_message_loop lg ms sofar of
                     (Inl e, d) \<Rightarrow> (Inl e, d)
                   | (Inr u, d) \<Rightarrow>
                       if truthy (js_prop entry ''standby'') then
                         (case elems (js_prop entry ''standyby'') of
                            Inl e \<Rightarrow> (Inl e, d)
                          | Inr ss \<Rightarrow> facebook_standby_loop lg ss d)
                       else (Inr (), d))))"

fun facebook_entry_loop ::
  "logic \<Rightarrow> jsval list \<Rightarrow> activity list \<Rightarrow> (js_error + unit) \<times> activity list" where
  "facebook_entry_loop lg [] sofar = (Inr (), sofar)"
| "facebook_entry_loop lg (e # es) sofar =
     (case facebook_entry lg e sofar of
        (Inl err, d) \<Rightarrow> (Inl err, d)
      | (Inr u, d) \<Rightarrow> facebook_entry_loop lg es d)"

definition facebook_processActivity ::
  "hmac_hex \<Rightarrow> facebook_options \<Rightarrow> logic \<Rightarrow> request \<Rightarrow> response \<Rightarrow> outcome" where
  "facebook_processActivity hmac_sha1 opts lg req res =
     (case facebook_verifySignature hmac_sha1 opts req res of
        (Inl e, r) \<Rightarrow> \<lparr>settled = Inl e, resp = r, calls = []\<rparr>
      | (Inr ok, r) \<Rightarrow>
          if ok then
            (case getp (body req) ''entry'' of
               Inl e \<Rightarrow> \<lparr>settled = Inl e, resp = r, calls = []\<rparr>
             | Inr entry \<Rightarrow>
                 if truthy entry then
                   (case elems entry of
                      Inl e \<Rightarrow> \<lparr>settled = Inl e, resp = r, calls = []\<rparr>
                    | Inr es \<Rightarrow>
                        (case facebook_entry_loop lg es [] of
                           (Inl e, d) \<Rightarrow> \<lparr>settled = Inl e, resp = r, calls = d\<rparr>
                         | (Inr u, d) \<Rightarrow>
                             \<lparr>settled = Inr (), resp = res_end (res_status (JNum 200) r),
                              calls = d\<rparr>))
                 else \<lparr>settled = Inr (), resp = r, calls = []\<rparr>)
          else \<lparr>settled = Inr (), resp = r, calls = []\<rparr>)"

subsection \<open>API client\<close>

record facebook_api =
  api_token :: string
  api_secret :: string
  client_host :: string
  client_version :: string

definition truthy_str :: "string option \<Rightarrow> bool" where
  "truthy_str s = (case s of None \<Rightarrow> False | Some x \<Rightarrow> x \<noteq> [])"

definition new_FacebookAPI :: "facebook_options \<Rightarrow> string \<Rightarrow> facebook_api" where
  "new_FacebookAPI opts token =
     \<lparr>api_token = token, api_secret = app_secret opts,
      client_host = api_host opts, client_version = api_version opts\<rparr>"

definition is_echo_activity :: "activity \<Rightarrow> bool" where
  "is_echo_activity a =
     (truthy (channelData a) \<and> truthy (js_prop (channelData a) ''message'')
      \<and> js_prop (js_prop (channelData a) ''message'') ''is_echo'' = JBool True)"

text \<open>
  \<open>getAPI\<close> resolves to a client, resolves to \<open>undefined\<close> (\<open>None\<close>) when the
  activity has no recipient id, or rejects.
\<close>

definition getAPI :: "facebook_options \<Rightarrow> activity \<Rightarrow> js_error + facebook_api option" where
  "getAPI opts a =
     (if truthy_str (access_token opts)
      then Inr (Some (new_FacebookAPI opts (the (access_token opts))))
      else if truthy (recipient_id a) then
        (let pageid = (if is_echo_activity a then from_id a else recipient_id a)
         in case getAccessTokenForPage opts of
              None \<Rightarrow> Inl TypeError
            | Some lookup \<Rightarrow>
                (case lookup pageid of
                   Inl e \<Rightarrow> Inl e
                 | Inr token \<Rightarrow>
                     if \<not> truthy_str token then Inl (Error ''Missing credentials for page.'')
                     else Inr (Some (new_FacebookAPI opts (the token)))))
      else Inr None)"

subsection \<open>Outbound translation\<close>

record facebook_message =
  fb_recipient_id :: jsval
  fb_text :: jsval
  sticker_id :: jsval
  attachment :: jsval
  quick_replies :: jsval
  messaging_type :: jsval
  tag :: jsval
  notification_type :: jsval
  persona_id :: jsval
  sender_action :: jsval

definition cd_field :: "jsval \<Rightarrow> string \<Rightarrow> jsval \<Rightarrow> jsval" where
  "cd_field cd k dflt = (if truthy cd \<and> truthy (js_prop cd k) then js_prop cd k else dflt)"

text \<open>
  One entry of \<open>quick_replies\<close>: a copy of the item, with \<open>content_type\<close> set to
  \<open>text\<close> when the item has none. \<open>Object.assign\<close> copies nothing from a number or a
  boolean; the index keys it copies from a string or an array are outside the model.
\<close>

fun quick_reply :: "jsval \<Rightarrow> js_error + jsval" where
  "quick_reply JUndefined = Inl TypeError"
| "quick_reply JNull = Inl TypeError"
| "quick_reply (JObj kvs) =
     (if truthy (js_prop (JObj kvs) ''content_type'') then Inr (JObj kvs)
      else setp (JObj kvs) ''content_type'' (JStr ''text''))"
| "quick_reply (JStr s) = Inl Unmodelled"
| "quick_reply (JArr xs) = Inl Unmodelled"
| "quick_reply v = Inr (JObj [(''content_type'', JStr ''text'')])"

fun map_quick_replies :: "jsval list \<Rightarrow> js_error + jsval list" where
  "map_quick_replies [] = Inr []"
| "map_quick_replies (x # xs) =
     bindE (quick_reply x) (\<lambda>y. bindE (map_quick_replies xs) (\<lambda>ys. Inr (y # ys)))"

definition activityToFacebook :: "activity \<Rightarrow> js_error + facebook_message" where
  "activityToFacebook a =
     (let cd = channelData a;
          message = \<lparr>fb_recipient_id = conversation_id a,
                      fb_text = act_text a,
                      sticker_id = cd_field cd ''sticker_id'' JUndefined,
                      attachment = cd_field cd ''attachment'' JUndefined,
                      quick_replies = JUndefined,
                      messaging_type = cd_field cd ''messaging_type'' (JStr ''RESPONSE''),
                      tag = cd_field cd ''tag'' JUndefined,
                      notification_type = cd_field cd ''notification_type'' JUndefined,
                      persona_id = cd_field cd ''persona_id'' JUndefined,
                      sender_action = cd_field cd ''sender_action'' JUndefined\<rparr>
      in if truthy cd \<and> truthy (js_prop cd ''quick_replies'') then
           (case js_prop cd ''quick_replies'' of
              JArr items \<Rightarrow>
                bindE (map_quick_replies items)
                  (\<lambda>qs. Inr (message\<lparr>quick_replies := JArr qs\<rparr>))
            | other \<Rightarrow> Inl TypeError)
         else Inr message)"

subsection \<open>Transport\<close>










section \<open>Sample inputs\<close>

text \<open>
  Concrete requests, options and collaborators on which the properties below are
  instantiated.
\<close>

definition quiet_logic :: logic where
  "quiet_logic a ts = Inr ts"

definition fresh_response :: response where
  "fresh_response = \<lparr>statusCode = JNum 200, sent = None, ended = False\<rparr>"

definition sms_event :: jsval where
  "sms_event = JObj [(''Body'', JStr ''hi''), (''From'', JStr ''+15551234567''),
                     (''To'', JStr ''+15557654321''), (''MessageSid'', JStr ''SM1''),
                     (''NumMedia'', JStr ''1'')]"

definition sample_validate :: validateRequest where
  "sample_validate token signature url params = (signature = ''good'' \<and> token = ''secret'')"

definition twilio_opts :: twilio_options where
  "twilio_opts = \<lparr>twilio_number = ''+15550000000'', account_sid = ''AC1'',
                  auth_token = ''secret'', validation_url = None\<rparr>"

definition sms_request :: "string \<Rightarrow> request" where
  "sms_request signature =
     \<lparr>headers = Some (map_of [(''x-twilio-signature'', signature)]),
      header = (\<lambda>name. None),
      protocol = Some ''https'',
      hostname = Some ''bot.example.com'',
      originalUrl = Some ''/api/messages'',
      rawBody = None,
      body = sms_event\<rparr>"

definition sample_hmac :: hmac_hex where
  "sample_hmac key data = key @ ''/'' @ data"

definition facebook_opts :: facebook_options where
  "facebook_opts = \<lparr>api_host = ''graph.facebook.com'', api_version = ''v3.2'',
                    verify_token = None, app_secret = ''s3cr3t'',
                    access_token = Some ''PAGE_TOKEN'', getAccessTokenForPage = None\<rparr>"

definition facebook_request :: "string \<Rightarrow> string \<Rightarrow> jsval \<Rightarrow> request" where
  "facebook_request signature raw event =
     \<lparr>headers = Some (map_of [(''x-hub-signature'', signature)]),
      header = (\<lambda>name. None),
      protocol = Some ''https'',
      hostname = Some ''bot.example.com'',
      originalUrl = Some ''/api/messages'',
      rawBody = Some raw,
      body = event\<rparr>"

definition text_message :: "string \<Rightarrow> jsval" where
  "text_message t =
     JObj [(''sender'', JObj [(''id'', JStr ''USER'')]),
           (''recipient'', JObj [(''id'', JStr ''PAGE'')]),
           (''message'', JObj [(''mid'', JStr ''m1''), (''text'', JStr t)])]"

definition postback_event :: jsval where
  "postback_event =
     JObj [(''sender'', JObj [(''id'', JStr ''USER'')]),
           (''recipient'', JObj [(''id'', JStr ''PAGE'')]),
           (''postback'', JObj [(''payload'', JStr ''GET_STARTED'')])]"

definition optin_event :: jsval where
  "optin_event =
     JObj [(''recipient'', JObj [(''id'', JStr ''PAGE'')]),
           (''optin'', JObj [(''ref'', JStr ''r''), (''user_ref'', JStr ''UREF'')])]"

definition standby_delivery :: jsval where
  "standby_delivery =
     JObj [(''object'', JStr ''page''),
           (''entry'', JArr [JObj [(''id'', JStr ''PAGE''),
                                   (''messaging'', JArr [text_message ''one'']),
                                   (''standby'', JArr [text_message ''two''])]])]"


definition text_activity :: "string \<Rightarrow> activity" where
  "text_activity t =
     \<lparr>act_id = JUndefined, channelId = ''facebook'',
      conversation_id = JStr ''USER'', from_id = JStr ''USER'', from_name = JStr ''USER'',
      recipient_id = JStr ''PAGE'', recipient_name = JStr ''PAGE'',
      act_text = JStr t,
      channelData =
        JObj [(''sender'', JObj [(''id'', JStr ''USER'')]),
              (''recipient'', JObj [(''id'', JStr ''PAGE'')]),
              (''message'', JObj [(''mid'', JStr ''m1''), (''text'', JStr t)]),
              (''mid'', JStr ''m1''),
              (''text'', JStr t)],
      act_type = Message\<rparr>"

definition postback_activity :: activity where
  "postback_activity =
     \<lparr>act_id = JUndefined, channelId = ''facebook'',
      conversation_id = JStr ''USER'', from_id = JStr ''USER'', from_name = JStr ''USER'',
      recipient_id = JStr ''PAGE'', recipient_name = JStr ''PAGE'',
      act_text = JStr ''GET_STARTED'',
      channelData = postback_event,
      act_type = Message\<rparr>"

definition echo_message :: jsval where
  "echo_message =
     JObj [(''sender'', JObj [(''id'', JStr ''PAGE'')]),
           (''recipient'', JObj [(''id'', JStr ''USER'')]),
           (''message'', JObj [(''is_echo'', JBool True), (''text'', JStr ''hello'')])]"

definition optin_activity :: activity where
  "optin_activity =
     \<lparr>act_id = JUndefined, channelId = ''facebook'',
      conversation_id = JStr ''UREF'', from_id = JStr ''UREF'', from_name = JStr ''UREF'',
      recipient_id = JStr ''PAGE'', recipient_name = JStr ''PAGE'',
      act_text = JNull,
      channelData =
        JObj [(''recipient'', JObj [(''id'', JStr ''PAGE'')]),
              (''optin'', JObj [(''ref'', JStr ''r''), (''user_ref'', JStr ''UREF'')]),
              (''sender'', JObj [(''id'', JStr ''UREF'')])],
      act_type = Event\<rparr>"

definition media_activity :: activity where
  "media_activity =
     \<lparr>act_id = JStr ''SM1'', channelId = ''twilio-sms'',
      conversation_id = JStr ''+15551234567'', from_id = JStr ''+15551234567'',
      from_name = JUndefined,
      recipient_id = JStr ''+15557654321'', recipient_name = JUndefined,
      act_text = JStr ''hi'',
      channelData =
        JObj [(''Body'', JStr ''hi''), (''From'', JStr ''+15551234567''),
              (''To'', JStr ''+15557654321''), (''MessageSid'', JStr ''SM1''),
              (''NumMedia'', JStr ''1''), (''botkitEventType'', JStr ''picture_message'')],
      act_type = Message\<rparr>"

definition plain_sms_event :: jsval where
  "plain_sms_event = JObj [(''Body'', JStr ''hi''), (''From'', JStr ''+15551234567''),
                           (''To'', JStr ''+15557654321''), (''MessageSid'', JStr ''SM1'')]"

definition plain_sms_request :: request where
  "plain_sms_request = (sms_request ''good'')\<lparr>body := plain_sms_event\<rparr>"

definition plain_sms_activity :: activity where
  "plain_sms_activity =
     \<lparr>act_id = JStr ''SM1'', channelId = ''twilio-sms'',
      conversation_id = JStr ''+15551234567'', from_id = JStr ''+15551234567'',
      from_name = JUndefined,
      recipient_id = JStr ''+15557654321'', recipient_name = JUndefined,
      act_text = JStr ''hi'',
      channelData = plain_sms_event,
      act_type = Message\<rparr>"

definition text_reply :: facebook_message where
  "text_reply =
     \<lparr>fb_recipient_id = JStr ''USER'', fb_text = JStr ''hi'',
      sticker_id = JUndefined, attachment = JUndefined, quick_replies = JUndefined,
      messaging_type = JStr ''RESPONSE'', tag = JUndefined, notification_type = JUndefined,
      persona_id = JUndefined, sender_action = JUndefined\<rparr>"









definition empty_sender_event :: jsval where
  "empty_sender_event =
     JObj [(''sender'', JObj []),
           (''recipient'', JObj [(''id'', JStr ''PAGE'')]),
           (''optin'', JObj [(''ref'', JStr ''r''), (''user_ref'', JStr ''UREF'')])]"

definition empty_sender_activity :: activity where
  "empty_sender_activity =
     \<lparr>act_id = JUndefined, channelId = ''facebook'',
      conversation_id = JUndefined, from_id = JUndefined, from_name = JUndefined,
      recipient_id = JStr ''PAGE'', recipient_name = JStr ''PAGE'',
      act_text = JNull,
      channelData = empty_sender_event,
      act_type = Event\<rparr>"

definition page_tokens :: "jsval \<Rightarrow> js_error + string option" where
  "page_tokens pageid =
     (if pageid = JStr ''PAGE'' then Inr (Some ''TOKEN_FOR_PAGE'')
      else if pageid = JStr ''USER'' then Inr (Some ''NOT_A_PAGE'')
      else Inr None)"

definition multi_opts :: facebook_options where
  "multi_opts = facebook_opts\<lparr>access_token := None, getAccessTokenForPage := Some page_tokens\<rparr>"

definition echo_activity :: activity where
  "echo_activity =
     \<lparr>act_id = JUndefined, channelId = ''facebook'',
      conversation_id = JStr ''PAGE'', from_id = JStr ''PAGE'', from_name = JStr ''PAGE'',
      recipient_id = JStr ''USER'', recipient_name = JStr ''USER'',
      act_text = JStr ''hello'',
      channelData =
        JObj [(''sender'', JObj [(''id'', JStr ''PAGE'')]),
              (''recipient'', JObj [(''id'', JStr ''USER'')]),
              (''message'', JObj [(''is_echo'', JBool True), (''text'', JStr ''hello'')]),
              (''is_echo'', JBool True),
              (''text'', JStr ''hello'')],
      act_type = Event\<rparr>"

definition page_api :: facebook_api where
  "page_api = \<lparr>api_token = ''TOKEN_FOR_PAGE'', api_secret = ''s3cr3t'',
                client_host = ''graph.facebook.com'', client_version = ''v3.2''\<rparr>"

section \<open>Properties\<close>

subsection \<open>JavaScript values\<close>

lemma bindE_simps [simp]: "bindE (Inl e) f = Inl e" "bindE (Inr x) f = f x"
  by (simp_all add: bindE_def)

lemma bindE_Inr_iff: "(bindE m f = Inr y) = (\<exists>x. m = Inr x \<and> f x = Inr y)"
  by (cases m) simp_all

lemma trim_fuel_stripped:
  "length s \<le> n \<Longrightarrow> space_len (map of_char (trim_fuel n s)) = 0"
proof (induction n arbitrary: s)
  case 0
  then show ?case by simp
next
  case (Suc n)
  show ?case
  proof (cases "space_len (map of_char s) = 0")
    case True
    then show ?thesis by (simp add: Let_def)
  next
    case False
    with Suc.prems have "length (drop (space_len (map of_char s)) s) \<le> n" by simp
    then show ?thesis using False Suc.IH by (simp add: Let_def)
  qed
qed

lemma trim_start_stripped: "space_len (map of_char (trim_start s)) = 0"
  by (simp add: trim_start_def trim_fuel_stripped)

lemma parseInt_pos_truthy: "parseInt v = Some n \<Longrightarrow> 0 < n \<Longrightarrow> truthy v"
  by (cases v) (auto simp: parseInt_str_def trim_start_def)

lemma parseInt_no_break_space: "parseInt_str (CHR 0xC2 # CHR 0xA0 # ''1'') = Some 1"
  by (simp add: parseInt_str_def trim_start_def ascii_space_def is_digit_def digit_val_def
        digits_value_def Let_def)

lemma parseInt_one: "parseInt_str ''1'' = Some 1"
  by (simp add: parseInt_str_def trim_start_def ascii_space_def is_digit_def digit_val_def
        digits_value_def Let_def)

lemma js_prop_setp: "setp v k x = Inr v' \<Longrightarrow> js_prop v' k = x"
  by (cases v) (auto simp: update_conv' split: if_splits)

lemma js_prop_setp_other: "setp v k x = Inr v' \<Longrightarrow> k' \<noteq> k \<Longrightarrow> js_prop v' k' = js_prop v k'"
  by (cases v) (auto simp: update_conv' split: if_splits)

lemma truthy_prop_obj: "truthy (js_prop v k) \<Longrightarrow> k \<noteq> ''length'' \<Longrightarrow> \<exists>kvs. v = JObj kvs"
  by (cases v) auto

subsection \<open>Twilio: inbound\<close>

lemma twilio_inbound_total:
  assumes "\<not> nullish event"
  shows "\<exists>a. twilio_inbound event = Inr a"
proof (cases "twilio_has_media event")
  case True
  then have "truthy (js_prop event ''NumMedia'')" by (simp add: twilio_has_media_def)
  then obtain kvs where "event = JObj kvs" using truthy_prop_obj by fastforce
  with assms True show ?thesis by (simp add: twilio_inbound_def Let_def)
next
  case False
  with assms show ?thesis by (simp add: twilio_inbound_def Let_def)
qed

lemma twilio_inbound_fields:
  assumes "twilio_inbound event = Inr a"
  shows "act_id a = js_prop event ''MessageSid''"
    and "conversation_id a = js_prop event ''From''"
    and "from_id a = js_prop event ''From''"
    and "recipient_id a = js_prop event ''To''"
    and "act_text a = js_prop event ''Body''"
    and "act_type a = Message"
    and "channelId a = ''twilio-sms''"
  using assms
  by (auto simp: twilio_inbound_def Let_def bindE_Inr_iff split: if_splits)

lemma twilio_inbound_channelData:
  assumes "twilio_inbound event = Inr a"
  shows "\<not> twilio_has_media event \<Longrightarrow> channelData a = event"
    and "twilio_has_media event \<Longrightarrow>
           setp event ''botkitEventType'' (JStr ''picture_message'') = Inr (channelData a)"
  using assms
  by (auto simp: twilio_inbound_def Let_def bindE_Inr_iff split: if_splits)

lemma twilio_calls_cases:
  "calls (twilio_processActivity validate opts lg req res) =
     (if fst (twilio_verifySignature validate opts req res) = Inr True
      then (case twilio_inbound (body req) of Inl e \<Rightarrow> [] | Inr a \<Rightarrow> [a])
      else [])"
  by (auto simp: twilio_processActivity_def split: prod.splits sum.splits)

lemmas sample_defs = quiet_logic_def fresh_response_def sms_event_def sample_validate_def
  twilio_opts_def sms_request_def

lemma sms_verified:
  "fst (twilio_verifySignature sample_validate twilio_opts (sms_request ''good'') fresh_response) = Inr True"
  by (simp add: sample_defs twilio_verifySignature_def twilio_validation_url_def)

text \<open>
  C7. A verified Twilio webhook with a body produces exactly one activity: its id is
  \<open>MessageSid\<close>, its conversation and sender are \<open>From\<close>, its recipient is \<open>To\<close>,
  its text is \<open>Body\<close> and its type is Message; and when \<open>NumMedia\<close> parses to an
  integer above zero, the channel data carries \<open>botkitEventType = picture_message\<close>.
\<close>

theorem twilio_one_activity:
  assumes "fst (twilio_verifySignature validate opts req res) = Inr True"
      and "\<not> nullish (body req)"
  shows "\<exists>a. calls (twilio_processActivity validate opts lg req res) = [a]
           \<and> act_id a = js_prop (body req) ''MessageSid''
           \<and> conversation_id a = js_prop (body req) ''From''
           \<and> from_id a = js_prop (body req) ''From''
           \<and> recipient_id a = js_prop (body req) ''To''
           \<and> act_text a = js_prop (body req) ''Body''
           \<and> act_type a = Message
           \<and> (\<forall>n. parseInt (js_prop (body req) ''NumMedia'') = Some n \<and> 0 < n
                 \<longrightarrow> js_prop (channelData a) ''botkitEventType'' = JStr ''picture_message'')"
proof -
  from assms(2) obtain a where a: "twilio_inbound (body req) = Inr a"
    using twilio_inbound_total by blast
  have c: "calls (twilio_processActivity validate opts lg req res) = [a]"
    using assms(1) a by (simp add: twilio_calls_cases)
  have m: "js_prop (channelData a) ''botkitEventType'' = JStr ''picture_message''"
    if "parseInt (js_prop (body req) ''NumMedia'') = Some n" "0 < n" for n
  proof -
    have "twilio_has_media (body req)"
      using that parseInt_pos_truthy[OF that] by (simp add: twilio_has_media_def)
    then show ?thesis
      using twilio_inbound_channelData(2)[OF a] js_prop_setp by blast
  qed
  show ?thesis
    using c twilio_inbound_fields[OF a] m by blast
qed

theorem twilio_one_activity_witness:
  "fst (twilio_verifySignature sample_validate twilio_opts (sms_request ''good'') fresh_response) = Inr True
   \<and> \<not> nullish (body (sms_request ''good''))
   \<and> parseInt (js_prop (body (sms_request ''good'')) ''NumMedia'') = Some 1
   \<and> (\<exists>a. calls (twilio_processActivity sample_validate twilio_opts quiet_logic
                      (sms_request ''good'') fresh_response) = [a]
           \<and> act_id a = JStr ''SM1''
           \<and> conversation_id a = JStr ''+15551234567''
           \<and> from_id a = JStr ''+15551234567''
           \<and> recipient_id a = JStr ''+15557654321''
           \<and> act_text a = JStr ''hi''
           \<and> act_type a = Message
           \<and> js_prop (channelData a) ''botkitEventType'' = JStr ''picture_message'')"
proof -
  have v: "fst (twilio_verifySignature sample_validate twilio_opts (sms_request ''good'')
             fresh_response) = Inr True"
    by (rule sms_verified)
  have b: "\<not> nullish (body (sms_request ''good''))"
    by (simp add: sms_request_def sms_event_def)
  have p: "parseInt (js_prop (body (sms_request ''good'')) ''NumMedia'') = Some 1"
    by (simp add: sms_request_def sms_event_def parseInt_one)
  have f: "js_prop (body (sms_request ''good'')) ''MessageSid'' = JStr ''SM1''"
     "js_prop (body (sms_request ''good'')) ''From'' = JStr ''+15551234567''"
     "js_prop (body (sms_request ''good'')) ''To'' = JStr ''+15557654321''"
     "js_prop (body (sms_request ''good'')) ''Body'' = JStr ''hi''"
    by (simp_all add: sms_request_def sms_event_def)
  from twilio_one_activity [OF v b, of quiet_logic] obtain a where
    "calls (twilio_processActivity sample_validate twilio_opts quiet_logic
       (sms_request ''good'') fresh_response) = [a]"
    "act_id a = js_prop (body (sms_request ''good'')) ''MessageSid''"
    "conversation_id a = js_prop (body (sms_request ''good'')) ''From''"
    "from_id a = js_prop (body (sms_request ''good'')) ''From''"
    "recipient_id a = js_prop (body (sms_request ''good'')) ''To''"
    "act_text a = js_prop (body (sms_request ''good'')) ''Body''"
    "act_type a = Message"
    "\<forall>n. parseInt (js_prop (body (sms_request ''good'')) ''NumMedia'') = Some n \<and> 0 < n
        \<longrightarrow> js_prop (channelData a) ''botkitEventType'' = JStr ''picture_message''"
    by blast
  then show ?thesis using v b p f by auto
qed

subsection \<open>Verification failure\<close>
















subsection \<open>Facebook: signature\<close>




subsection \<open>Facebook: batched deliveries\<close>

text \<open>
  Without a standby part the loop does what it is meant to: when every sub-event of an
  entry translates and the logic does not throw, the logic is invoked once per
  sub-event, in array order.
\<close>

lemma facebook_message_loop_dispatch:
  assumes "\<forall>m \<in> set ms. \<exists>a. facebook_inbound m = Inr a"
      and "\<forall>a ts. \<exists>ts'. lg a ts = Inr ts'"
  shows "facebook_message_loop lg ms sofar
           = (Inr (), sofar @ map (\<lambda>m. projr (facebook_inbound m)) ms)"
  using assms(1)
proof (induction ms arbitrary: sofar)
  case Nil
  then show ?case by simp
next
  case (Cons m ms)
  then obtain a where a: "facebook_inbound m = Inr a" by auto
  from assms(2) obtain ts' where "lg a Map.empty = Inr ts'" by blast
  with a have "processSingleMessage lg m sofar = (Inr (), sofar @ [a])"
    by (simp add: processSingleMessage_def)
  with a Cons show ?case by simp
qed

lemma facebook_entry_dispatch:
  assumes "js_prop entry ''messaging'' = JArr ms"
      and "\<not> nullish entry"
      and "\<not> truthy (js_prop entry ''changes'')"
      and "\<not> truthy (js_prop entry ''standby'')"
      and "\<forall>m \<in> set ms. \<exists>a. facebook_inbound m = Inr a"
      and "\<forall>a ts. \<exists>ts'. lg a ts = Inr ts'"
  shows "facebook_entry lg entry sofar
           = (Inr (), sofar @ map (\<lambda>m. projr (facebook_inbound m)) ms)"
  using assms(1-4) facebook_message_loop_dispatch[OF assms(5,6)]
  by (simp add: facebook_entry_def getp_def Let_def)

lemma text_message_inbound: "facebook_inbound (text_message t) = Inr (text_activity t)"
  by (simp add: facebook_inbound_def facebook_backfill_def getp_def text_message_def
        text_activity_def Let_def)

lemma standby_entry_dispatch:
  "facebook_entry quiet_logic
     (JObj [(''id'', JStr ''PAGE''),
            (''messaging'', JArr [text_message ''one'']),
            (''standby'', JArr [text_message ''two''])]) []
   = (Inl TypeError, [text_activity ''one''])"
  by (simp add: facebook_entry_def getp_def Let_def processSingleMessage_def
        text_message_inbound quiet_logic_def)

text \<open>
  C3. A verified delivery whose single entry has one sub-event under \<open>messaging\<close> and
  one under \<open>standby\<close>: the logic callback is invoked for the first only; reading the
  standby sub-events through the property \<open>standyby\<close> yields \<open>undefined\<close>, whose
  \<open>length\<close> throws, so the promise rejects and no response is written.
\<close>

theorem standby_delivery_rejects:
  "facebook_processActivity sample_hmac facebook_opts quiet_logic
     (facebook_request ''sha1=s3cr3t/RAW'' ''RAW'' standby_delivery) fresh_response
   = \<lparr>settled = Inl TypeError, resp = fresh_response, calls = [text_activity ''one'']\<rparr>"
proof -
  have "getp standby_delivery ''entry''
          = Inr (JArr [JObj [(''id'', JStr ''PAGE''),
                             (''messaging'', JArr [text_message ''one'']),
                             (''standby'', JArr [text_message ''two''])]])"
    by (simp add: standby_delivery_def getp_def)
  moreover have "facebook_verifySignature sample_hmac facebook_opts
          (facebook_request ''sha1=s3cr3t/RAW'' ''RAW'' standby_delivery) fresh_response
          = (Inr True, fresh_response)"
    by (simp add: facebook_verifySignature_def facebook_request_def sample_hmac_def
          facebook_opts_def Let_def)
  moreover have "body (facebook_request ''sha1=s3cr3t/RAW'' ''RAW'' standby_delivery)
                   = standby_delivery"
    by (simp add: facebook_request_def)
  ultimately show ?thesis
    by (simp add: facebook_processActivity_def standby_entry_dispatch)
qed

subsection \<open>Facebook: inbound translation\<close>

lemma getp_Inr_iff: "(getp v k = Inr x) = (\<not> nullish v \<and> x = js_prop v k)"
  by (auto simp: getp_def)

lemma facebook_backfill_cases:
  assumes "facebook_backfill message = Inr m"
  shows "(m = message \<and> \<not> (\<not> truthy (js_prop message ''sender'')
                           \<and> truthy (js_prop message ''optin'')
                           \<and> truthy (js_prop (js_prop message ''optin'') ''user_ref'')))
         \<or> (\<not> truthy (js_prop message ''sender'')
             \<and> truthy (js_prop message ''optin'')
             \<and> truthy (js_prop (js_prop message ''optin'') ''user_ref'')
             \<and> setp message ''sender''
                   (JObj [(''id'', js_prop (js_prop message ''optin'') ''user_ref'')]) = Inr m)"
  using assms
  by (auto simp: facebook_backfill_def bindE_Inr_iff getp_Inr_iff split: if_splits)

lemma facebook_backfill_other:
  assumes "facebook_backfill message = Inr m" and "k \<noteq> ''sender''"
  shows "js_prop m k = js_prop message k"
  using facebook_backfill_cases[OF assms(1)] assms(2) js_prop_setp_other by blast

lemma facebook_backfill_sender:
  assumes "facebook_backfill message = Inr m"
  shows "js_prop m ''sender'' =
           (if \<not> truthy (js_prop message ''sender'') \<and> truthy (js_prop message ''optin'')
                 \<and> truthy (js_prop (js_prop message ''optin'') ''user_ref'')
            then JObj [(''id'', js_prop (js_prop message ''optin'') ''user_ref'')]
            else js_prop message ''sender'')"
  using facebook_backfill_cases[OF assms] js_prop_setp by auto

lemma facebook_inbound_cases:
  assumes "facebook_inbound message = Inr a"
  obtains m where "facebook_backfill message = Inr m"
    and "conversation_id a = js_prop (js_prop m ''sender'') ''id''"
    and "from_id a = js_prop (js_prop m ''sender'') ''id''"
    and "recipient_id a = js_prop (js_prop m ''recipient'') ''id''"
    and "act_type a =
           (if truthy (js_prop m ''message'')
            then (if truthy (js_prop (js_prop m ''message'') ''is_echo'') then Event else Message)
            else if truthy (js_prop m ''postback'') then Message else Event)"
    and "act_text a =
           (if truthy (js_prop m ''message'') then js_prop (js_prop m ''message'') ''text''
            else if truthy (js_prop m ''postback'')
            then js_prop (js_prop m ''postback'') ''payload'' else JNull)"
    and "truthy (js_prop m ''message'') \<longrightarrow>
           (\<exists>ks. for_in_keys (js_prop m ''message'') = Inr ks
                \<and> copy_fields ks m = Inr (channelData a))"
    and "\<not> truthy (js_prop m ''message'') \<longrightarrow> channelData a = m"
  using assms
  by (auto simp: facebook_inbound_def bindE_Inr_iff getp_Inr_iff Let_def split: if_splits)

lemma copy_fields_other:
  "copy_fields ks cd = Inr cd' \<Longrightarrow> k \<notin> set ks \<Longrightarrow> js_prop cd' k = js_prop cd k"
proof (induction ks arbitrary: cd)
  case Nil
  then show ?case by simp
next
  case (Cons k0 ks)
  from Cons.prems(1) obtain cd1 where
    s: "setp cd k0 (js_prop (js_prop cd ''message'') k0) = Inr cd1"
    and r: "copy_fields ks cd1 = Inr cd'"
    by (auto simp: bindE_Inr_iff getp_Inr_iff)
  from Cons.prems(2) have "k \<noteq> k0" "k \<notin> set ks" by auto
  then show ?case using Cons.IH[OF r] js_prop_setp_other[OF s] by simp
qed

lemma copy_fields_copied:
  "copy_fields ks cd = Inr cd' \<Longrightarrow> ''message'' \<notin> set ks \<Longrightarrow> k \<in> set ks \<Longrightarrow>
     js_prop cd' k = js_prop (js_prop cd ''message'') k"
proof (induction ks arbitrary: cd)
  case Nil
  then show ?case by simp
next
  case (Cons k0 ks)
  from Cons.prems(1) obtain cd1 where
    s: "setp cd k0 (js_prop (js_prop cd ''message'') k0) = Inr cd1"
    and r: "copy_fields ks cd1 = Inr cd'"
    by (auto simp: bindE_Inr_iff getp_Inr_iff)
  from Cons.prems(2) have n: "''message'' \<noteq> k0" "''message'' \<notin> set ks" by auto
  have mm: "js_prop cd1 ''message'' = js_prop cd ''message''"
    using js_prop_setp_other[OF s] n(1) by simp
  show ?case
  proof (cases "k \<in> set ks")
    case True
    then show ?thesis using Cons.IH[OF r n(2)] mm by simp
  next
    case False
    with Cons.prems(3) have "k = k0" by simp
    then show ?thesis
      using copy_fields_other[OF r False] js_prop_setp[OF s] by simp
  qed
qed

lemma copy_fields_proto:
  "facebook_inbound
     (JObj [(''sender'', JObj [(''id'', JStr ''USER'')]),
            (''recipient'', JObj [(''id'', JStr ''PAGE'')]),
            (''message'', JObj [(''__proto__'', JObj [(''foo'', JNum 1)])])])
   = Inl Unmodelled"
  by (simp add: facebook_inbound_def facebook_backfill_def getp_def Let_def digits_only_def)

lemma for_in_keys_falsy: "\<not> truthy v \<Longrightarrow> for_in_keys v = Inr []"
  by (cases v) auto

lemma processSingleMessage_calls:
  "snd (processSingleMessage lg message sofar) =
     sofar @ (case facebook_inbound message of Inl e \<Rightarrow> [] | Inr a \<Rightarrow> [a])"
  by (simp add: processSingleMessage_def split: sum.splits)

lemma processSingleMessage_handed:
  "snd (processSingleMessage lg message []) = [a] \<Longrightarrow> facebook_inbound message = Inr a"
  by (simp add: processSingleMessage_calls split: sum.splits)

lemma postback_inbound: "facebook_inbound postback_event = Inr postback_activity"
  by (simp add: facebook_inbound_def facebook_backfill_def getp_def postback_event_def
        postback_activity_def Let_def)

text \<open>
  C6, as stated, fails: a postback sub-event (no \<open>message\<close> field) is translated to
  an activity of type Message, with the postback payload as its text.
\<close>

theorem postback_typed_message:
  "facebook_inbound postback_event = Inr postback_activity
   \<and> act_type postback_activity = Message
   \<and> js_prop postback_event ''message'' = JUndefined
   \<and> js_prop postback_event ''postback'' = JObj [(''payload'', JStr ''GET_STARTED'')]"
  by (simp add: postback_inbound) (simp add: postback_activity_def postback_event_def)

text \<open>
  C6, amended. The type of a translated sub-event is Message exactly when it has a
  \<open>message\<close> whose \<open>is_echo\<close> is not set, or has no \<open>message\<close> but a
  \<open>postback\<close>; every other sub-event (echo, delivery or read receipt, opt-in,
  referral, ...) is typed Event.
\<close>

theorem facebook_activity_type:
  assumes "facebook_inbound message = Inr a"
  shows "(act_type a = Message) =
           (if truthy (js_prop message ''message'')
            then \<not> truthy (js_prop (js_prop message ''message'') ''is_echo'')
            else truthy (js_prop message ''postback''))
         \<and> (act_type a \<noteq> Message \<longrightarrow> act_type a = Event)"
proof -
  from assms obtain m where b: "facebook_backfill message = Inr m"
    and t: "act_type a =
           (if truthy (js_prop m ''message'')
            then (if truthy (js_prop (js_prop m ''message'') ''is_echo'') then Event else Message)
            else if truthy (js_prop m ''postback'') then Message else Event)"
    by (rule facebook_inbound_cases)
  have "js_prop m ''message'' = js_prop message ''message''"
       "js_prop m ''postback'' = js_prop message ''postback''"
    using facebook_backfill_other[OF b] by simp_all
  with t show ?thesis by simp
qed

theorem facebook_activity_type_witness:
  "facebook_inbound postback_event = Inr postback_activity
   \<and> \<not> truthy (js_prop postback_event ''message'')
   \<and> truthy (js_prop postback_event ''postback'')
   \<and> act_type postback_activity = Message
   \<and> (act_type postback_activity = Message) =
       (if truthy (js_prop postback_event ''message'')
        then \<not> truthy (js_prop (js_prop postback_event ''message'') ''is_echo'')
        else truthy (js_prop postback_event ''postback''))"
proof -
  note t = facebook_activity_type [OF postback_inbound]
  have "\<not> truthy (js_prop postback_event ''message'')"
    and "truthy (js_prop postback_event ''postback'')"
    by (simp_all add: postback_event_def)
  moreover have "act_type postback_activity = Message"
    by (simp add: postback_activity_def)
  ultimately show ?thesis using postback_inbound t by simp
qed

lemma optin_inbound: "facebook_inbound optin_event = Inr optin_activity"
  by (simp add: facebook_inbound_def facebook_backfill_def getp_def optin_event_def
        optin_activity_def Let_def)

text \<open>
  C9, as stated, fails: a sub-event whose \<open>sender\<close> is an object without an id
  lacks a sender id and carries an opt-in user reference, yet nothing is filled in (the
  code tests \<open>!message.sender\<close>) and the sender id of the activity is \<open>undefined\<close>.
\<close>

theorem empty_sender_not_backfilled:
  "facebook_inbound empty_sender_event = Inr empty_sender_activity
   \<and> js_prop (js_prop empty_sender_event ''sender'') ''id'' = JUndefined
   \<and> js_prop (js_prop empty_sender_event ''optin'') ''user_ref'' = JStr ''UREF''
   \<and> from_id empty_sender_activity = JUndefined
   \<and> conversation_id empty_sender_activity = JUndefined"
  by (simp add: facebook_inbound_def facebook_backfill_def getp_def empty_sender_event_def
        empty_sender_activity_def Let_def)

lemma facebook_optin_translates:
  assumes s: "\<not> truthy (js_prop message ''sender'')"
      and o: "truthy (js_prop message ''optin'')"
      and u: "truthy (js_prop (js_prop message ''optin'') ''user_ref'')"
      and r: "\<not> nullish (js_prop message ''recipient'')"
      and m: "\<not> truthy (js_prop message ''message'')"
  shows "\<exists>a. facebook_inbound message = Inr a"
proof -
  from o obtain kvs where k: "message = JObj kvs"
    using truthy_prop_obj[of message "''optin''"] by auto
  let ?sender = "JObj [(''id'', js_prop (js_prop message ''optin'') ''user_ref'')]"
  let ?m = "JObj (AList.update ''sender'' ?sender kvs)"
  have b: "facebook_backfill message = Inr ?m"
    using s o u k by (simp add: facebook_backfill_def getp_def)
  have p: "js_prop ?m ''sender'' = ?sender"
         "js_prop ?m ''recipient'' = js_prop message ''recipient''"
         "js_prop ?m ''message'' = js_prop message ''message''"
    using k by (simp_all add: update_conv')
  show ?thesis
    using b p r m by (simp add: facebook_inbound_def getp_def Let_def)
qed

text \<open>
  C9, amended. A sub-event with no \<open>sender\<close> at all (absent or falsy) and a truthy
  \<open>optin.user_ref\<close>: whenever it is translated, the sender id and the conversation id
  of the activity are that user reference; and it is translated whenever it has a
  recipient and no \<open>message\<close>, as the opt-in events of the Checkbox plug-in do.
\<close>

theorem facebook_optin_sender:
  assumes "\<not> truthy (js_prop message ''sender'')"
      and "truthy (js_prop message ''optin'')"
      and "truthy (js_prop (js_prop message ''optin'') ''user_ref'')"
  shows "(\<forall>a. facebook_inbound message = Inr a \<longrightarrow>
            from_id a = js_prop (js_prop message ''optin'') ''user_ref''
            \<and> conversation_id a = js_prop (js_prop message ''optin'') ''user_ref'')
         \<and> (\<not> nullish (js_prop message ''recipient'') \<and> \<not> truthy (js_prop message ''message'')
              \<longrightarrow> (\<exists>a. facebook_inbound message = Inr a
                        \<and> from_id a = js_prop (js_prop message ''optin'') ''user_ref''
                        \<and> conversation_id a = js_prop (js_prop message ''optin'') ''user_ref''))"
proof -
  have c: "from_id a = js_prop (js_prop message ''optin'') ''user_ref''
           \<and> conversation_id a = js_prop (js_prop message ''optin'') ''user_ref''"
    if i: "facebook_inbound message = Inr a" for a
  proof -
    from i obtain m where b: "facebook_backfill message = Inr m"
      and c: "conversation_id a = js_prop (js_prop m ''sender'') ''id''"
      and f: "from_id a = js_prop (js_prop m ''sender'') ''id''"
      by (rule facebook_inbound_cases)
    have "js_prop m ''sender'' = JObj [(''id'', js_prop (js_prop message ''optin'') ''user_ref'')]"
      using facebook_backfill_sender[OF b] assms by simp
    with c f show ?thesis by simp
  qed
  show ?thesis
  proof (intro conjI allI impI)
    fix a assume "facebook_inbound message = Inr a"
    then show "from_id a = js_prop (js_prop message ''optin'') ''user_ref''"
      and "conversation_id a = js_prop (js_prop message ''optin'') ''user_ref''"
      using c by simp_all
  next
    assume "\<not> nullish (js_prop message ''recipient'') \<and> \<not> truthy (js_prop message ''message'')"
    then obtain a where "facebook_inbound message = Inr a"
      using facebook_optin_translates[OF assms] by blast
    then show "\<exists>a. facebook_inbound message = Inr a
                 \<and> from_id a = js_prop (js_prop message ''optin'') ''user_ref''
                 \<and> conversation_id a = js_prop (js_prop message ''optin'') ''user_ref''"
      using c by blast
  qed
qed

theorem facebook_optin_sender_witness:
  "\<not> truthy (js_prop optin_event ''sender'')
   \<and> truthy (js_prop optin_event ''optin'')
   \<and> js_prop (js_prop optin_event ''optin'') ''user_ref'' = JStr ''UREF''
   \<and> \<not> nullish (js_prop optin_event ''recipient'')
   \<and> \<not> truthy (js_prop optin_event ''message'')
   \<and> facebook_inbound optin_event = Inr optin_activity
   \<and> from_id optin_activity = JStr ''UREF''
   \<and> conversation_id optin_activity = JStr ''UREF''"
proof -
  have s: "\<not> truthy (js_prop optin_event ''sender'')"
    and o: "truthy (js_prop optin_event ''optin'')"
    and u: "truthy (js_prop (js_prop optin_event ''optin'') ''user_ref'')"
    and v: "js_prop (js_prop optin_event ''optin'') ''user_ref'' = JStr ''UREF''"
    and r: "\<not> nullish (js_prop optin_event ''recipient'')"
    and m: "\<not> truthy (js_prop optin_event ''message'')"
    by (simp_all add: optin_event_def)
  from facebook_optin_sender [OF s o u] r m
  obtain a where i: "facebook_inbound optin_event = Inr a"
    and f: "from_id a = js_prop (js_prop optin_event ''optin'') ''user_ref''"
    and c: "conversation_id a = js_prop (js_prop optin_event ''optin'') ''user_ref''"
    by blast
  from i optin_inbound have "a = optin_activity" by simp
  with f c show ?thesis using optin_inbound s o v r m by simp
qed

subsection \<open>Channel data\<close>

lemma sms_has_media: "twilio_has_media sms_event"
  by (simp add: twilio_has_media_def sms_event_def parseInt_one)

lemma sms_inbound: "twilio_inbound sms_event = Inr media_activity"
  using sms_has_media by (simp add: twilio_inbound_def Let_def) (simp add: sms_event_def media_activity_def)

lemma sms_calls:
  "calls (twilio_processActivity sample_validate twilio_opts quiet_logic (sms_request ''good'')
     fresh_response) = [media_activity]"
proof -
  have "body (sms_request ''good'') = sms_event" by (simp add: sms_request_def)
  then show ?thesis by (simp add: twilio_calls_cases sms_verified sms_inbound)
qed

lemma text_message_handed:
  "snd (processSingleMessage quiet_logic (text_message ''hi'') []) = [text_activity ''hi'']"
  by (simp add: processSingleMessage_calls text_message_inbound)

text \<open>
  C5, as stated, fails: the channel data handed to the logic callback is the payload
  after the translation has written into it. A Twilio body with \<open>NumMedia = 1\<close> arrives
  with an added \<open>botkitEventType\<close>; a Facebook text message arrives with the fields of
  its \<open>message\<close> (\<open>mid\<close>, \<open>text\<close>) copied to the top level.
\<close>

theorem channel_data_not_verbatim:
  "calls (twilio_processActivity sample_validate twilio_opts quiet_logic (sms_request ''good'')
     fresh_response) = [media_activity]
   \<and> body (sms_request ''good'') = sms_event
   \<and> channelData media_activity \<noteq> sms_event
   \<and> js_prop sms_event ''botkitEventType'' = JUndefined
   \<and> js_prop (channelData media_activity) ''botkitEventType'' = JStr ''picture_message''
   \<and> snd (processSingleMessage quiet_logic (text_message ''hi'') []) = [text_activity ''hi'']
   \<and> channelData (text_activity ''hi'') \<noteq> text_message ''hi''
   \<and> js_prop (text_message ''hi'') ''text'' = JUndefined
   \<and> js_prop (channelData (text_activity ''hi'')) ''text'' = JStr ''hi''"
proof -
  have "body (sms_request ''good'') = sms_event" by (simp add: sms_request_def)
  moreover have "channelData media_activity \<noteq> sms_event"
    and "js_prop sms_event ''botkitEventType'' = JUndefined"
    and "js_prop (channelData media_activity) ''botkitEventType'' = JStr ''picture_message''"
    by (simp_all add: media_activity_def sms_event_def)
  moreover have "channelData (text_activity ''hi'') \<noteq> text_message ''hi''"
    and "js_prop (text_message ''hi'') ''text'' = JUndefined"
    and "js_prop (channelData (text_activity ''hi'')) ''text'' = JStr ''hi''"
    by (simp_all add: text_activity_def text_message_def)
  ultimately show ?thesis using sms_calls text_message_handed by simp
qed

lemma twilio_calls_inbound:
  "calls (twilio_processActivity validate opts lg req res) = [a] \<Longrightarrow>
     twilio_inbound (body req) = Inr a"
  by (simp add: twilio_calls_cases split: if_splits sum.splits)

text \<open>
  C5, amended. The channel data of the activity handed to the logic callback is the
  payload as the translation leaves it. Twilio: the body itself when it carries no
  media; otherwise the body with \<open>botkitEventType = picture_message\<close> set, every other
  property as received. Facebook: a sub-event that has a sender and whose
  \<open>message\<close> has no fields to copy (no \<open>message\<close> at all, in particular) is handed over
  as received; otherwise every property other than \<open>sender\<close> and the copied keys is as
  received, \<open>sender\<close> is as received or filled in from the opt-in reference (unless a
  copied key overwrites it), and each key of \<open>message\<close> holds the value it has in
  \<open>message\<close> (when \<open>message\<close> has no key of that same name). In both adapters
  the activity handed over is the one the translation has built, type included: Message
  for Twilio; for Facebook, Message for a \<open>message\<close> that is not an echo and for a
  \<open>postback\<close> without \<open>message\<close>, and Event otherwise.
\<close>

theorem channel_data_after_translation:
  "(calls (twilio_processActivity validate topts lg req res) = [a] \<longrightarrow>
      twilio_inbound (body req) = Inr a
      \<and> act_type a = Message
      \<and> (\<not> twilio_has_media (body req) \<longrightarrow> channelData a = body req)
      \<and> (twilio_has_media (body req) \<longrightarrow>
            js_prop (channelData a) ''botkitEventType'' = JStr ''picture_message'')
      \<and> (\<forall>k. k \<noteq> ''botkitEventType'' \<longrightarrow> js_prop (channelData a) k = js_prop (body req) k))
   \<and> (snd (processSingleMessage lg message []) = [b]
        \<and> for_in_keys (js_prop message ''message'') = Inr ks \<longrightarrow>
      facebook_inbound message = Inr b
      \<and> act_type b =
            (if truthy (js_prop message ''message'')
             then (if truthy (js_prop (js_prop message ''message'') ''is_echo'')
                   then Event else Message)
             else if truthy (js_prop message ''postback'') then Message else Event)
      \<and> (truthy (js_prop message ''sender'') \<and> ks = [] \<longrightarrow> channelData b = message)
      \<and> (\<forall>k. k \<noteq> ''sender'' \<and> k \<notin> set ks \<longrightarrow>
             js_prop (channelData b) k = js_prop message k)
      \<and> (''sender'' \<notin> set ks \<longrightarrow>
             js_prop (channelData b) ''sender'' =
               (if \<not> truthy (js_prop message ''sender'') \<and> truthy (js_prop message ''optin'')
                     \<and> truthy (js_prop (js_prop message ''optin'') ''user_ref'')
                then JObj [(''id'', js_prop (js_prop message ''optin'') ''user_ref'')]
                else js_prop message ''sender''))
      \<and> (''message'' \<notin> set ks \<longrightarrow>
            (\<forall>k \<in> set ks. js_prop (channelData b) k = js_prop (js_prop message ''message'') k)))"
proof (intro conjI impI)
  assume c: "calls (twilio_processActivity validate topts lg req res) = [a]"
  note i = twilio_calls_inbound[OF c]
  show "twilio_inbound (body req) = Inr a" by (rule i)
  show "act_type a = Message" using twilio_inbound_fields(6)[OF i] by simp
  show "\<not> twilio_has_media (body req) \<Longrightarrow> channelData a = body req"
    using twilio_inbound_channelData(1)[OF i] .
  show "twilio_has_media (body req) \<Longrightarrow>
          js_prop (channelData a) ''botkitEventType'' = JStr ''picture_message''"
    using twilio_inbound_channelData(2)[OF i] js_prop_setp by blast
  show "\<forall>k. k \<noteq> ''botkitEventType'' \<longrightarrow> js_prop (channelData a) k = js_prop (body req) k"
  proof (cases "twilio_has_media (body req)")
    case True
    then show ?thesis
      using twilio_inbound_channelData(2)[OF i] js_prop_setp_other by blast
  next
    case False
    then show ?thesis using twilio_inbound_channelData(1)[OF i] by simp
  qed
next
  assume h: "snd (processSingleMessage lg message []) = [b]
        \<and> for_in_keys (js_prop message ''message'') = Inr ks"
  then have i: "facebook_inbound message = Inr b"
    and ks: "for_in_keys (js_prop message ''message'') = Inr ks"
    using processSingleMessage_handed by blast+
  from i obtain m where bf: "facebook_backfill message = Inr m"
    and ty: "act_type b =
           (if truthy (js_prop m ''message'')
            then (if truthy (js_prop (js_prop m ''message'') ''is_echo'') then Event else Message)
            else if truthy (js_prop m ''postback'') then Message else Event)"
    and t: "truthy (js_prop m ''message'') \<longrightarrow>
           (\<exists>ks. for_in_keys (js_prop m ''message'') = Inr ks
                \<and> copy_fields ks m = Inr (channelData b))"
    and f: "\<not> truthy (js_prop m ''message'') \<longrightarrow> channelData b = m"
    by (rule facebook_inbound_cases)
  have mm: "js_prop m ''message'' = js_prop message ''message''"
    and pb: "js_prop m ''postback'' = js_prop message ''postback''"
    using facebook_backfill_other[OF bf] by simp_all
  show "facebook_inbound message = Inr b" by (rule i)
  show "act_type b =
            (if truthy (js_prop message ''message'')
             then (if truthy (js_prop (js_prop message ''message'') ''is_echo'')
                   then Event else Message)
             else if truthy (js_prop message ''postback'') then Message else Event)"
    using ty mm pb by simp
  have cp: "copy_fields ks m = Inr (channelData b)"
  proof (cases "truthy (js_prop m ''message'')")
    case True
    then show ?thesis using t ks mm by auto
  next
    case False
    then have "ks = []" using for_in_keys_falsy ks mm by auto
    then show ?thesis using f False by simp
  qed
  {
    assume "truthy (js_prop message ''sender'') \<and> ks = []"
    then have "m = message" "channelData b = m"
      using facebook_backfill_cases[OF bf] cp by auto
    then show "channelData b = message" by simp
  }
  show "\<forall>k. k \<noteq> ''sender'' \<and> k \<notin> set ks \<longrightarrow> js_prop (channelData b) k = js_prop message k"
    using copy_fields_other[OF cp] facebook_backfill_other[OF bf] by simp
  show "''sender'' \<notin> set ks \<Longrightarrow>
             js_prop (channelData b) ''sender'' =
               (if \<not> truthy (js_prop message ''sender'') \<and> truthy (js_prop message ''optin'')
                     \<and> truthy (js_prop (js_prop message ''optin'') ''user_ref'')
                then JObj [(''id'', js_prop (js_prop message ''optin'') ''user_ref'')]
                else js_prop message ''sender'')"
    using copy_fields_other[OF cp] facebook_backfill_sender[OF bf] by simp
  show "''message'' \<notin> set ks \<Longrightarrow>
          \<forall>k \<in> set ks. js_prop (channelData b) k = js_prop (js_prop message ''message'') k"
    using copy_fields_copied[OF cp] mm by simp
qed

lemma plain_sms_no_media: "\<not> twilio_has_media plain_sms_event"
  by (simp add: twilio_has_media_def plain_sms_event_def)

lemma plain_sms_calls:
  "calls (twilio_processActivity sample_validate twilio_opts quiet_logic plain_sms_request
     fresh_response) = [plain_sms_activity]"
proof -
  have "fst (twilio_verifySignature sample_validate twilio_opts plain_sms_request fresh_response)
          = Inr True"
    by (simp add: sample_defs plain_sms_request_def twilio_verifySignature_def
          twilio_validation_url_def)
  moreover have "body plain_sms_request = plain_sms_event"
    by (simp add: plain_sms_request_def sms_request_def)
  moreover have "twilio_inbound plain_sms_event = Inr plain_sms_activity"
    using plain_sms_no_media
    by (simp add: twilio_inbound_def Let_def) (simp add: plain_sms_event_def plain_sms_activity_def)
  ultimately show ?thesis by (simp add: twilio_calls_cases)
qed

lemma postback_handed:
  "snd (processSingleMessage quiet_logic postback_event []) = [postback_activity]"
  by (simp add: processSingleMessage_calls postback_inbound)

theorem channel_data_after_translation_witness:
  "calls (twilio_processActivity sample_validate twilio_opts quiet_logic (sms_request ''good'')
     fresh_response) = [media_activity]
   \<and> twilio_has_media (body (sms_request ''good''))
   \<and> js_prop (channelData media_activity) ''botkitEventType'' = JStr ''picture_message''
   \<and> js_prop (channelData media_activity) ''Body'' = js_prop (body (sms_request ''good'')) ''Body''
   \<and> calls (twilio_processActivity sample_validate twilio_opts quiet_logic plain_sms_request
     fresh_response) = [plain_sms_activity]
   \<and> \<not> twilio_has_media (body plain_sms_request)
   \<and> channelData plain_sms_activity = body plain_sms_request
   \<and> snd (processSingleMessage quiet_logic (text_message ''hi'') []) = [text_activity ''hi'']
   \<and> for_in_keys (js_prop (text_message ''hi'') ''message'') = Inr [''mid'', ''text'']
   \<and> js_prop (channelData (text_activity ''hi'')) ''recipient''
        = js_prop (text_message ''hi'') ''recipient''
   \<and> js_prop (channelData (text_activity ''hi'')) ''sender''
        = js_prop (text_message ''hi'') ''sender''
   \<and> js_prop (channelData (text_activity ''hi'')) ''text''
        = js_prop (js_prop (text_message ''hi'') ''message'') ''text''
   \<and> snd (processSingleMessage quiet_logic postback_event []) = [postback_activity]
   \<and> for_in_keys (js_prop postback_event ''message'') = Inr []
   \<and> truthy (js_prop postback_event ''sender'')
   \<and> channelData postback_activity = postback_event"
proof -
  have b1: "body (sms_request ''good'') = sms_event" by (simp add: sms_request_def)
  have b2: "body plain_sms_request = plain_sms_event"
    by (simp add: plain_sms_request_def sms_request_def)
  have k1: "for_in_keys (js_prop (text_message ''hi'') ''message'') = Inr [''mid'', ''text'']"
    by (simp add: text_message_def)
  have k2: "for_in_keys (js_prop postback_event ''message'') = Inr []"
    by (simp add: postback_event_def)
  have s1: "truthy (js_prop (text_message ''hi'') ''sender'')"
    by (simp add: text_message_def)
  have s2: "truthy (js_prop postback_event ''sender'')"
    by (simp add: postback_event_def)
  note w1 = channel_data_after_translation
              [of sample_validate twilio_opts quiet_logic "sms_request ''good''" fresh_response
                  media_activity "text_message ''hi''" "text_activity ''hi''"
                  "[''mid'', ''text'']"]
  note w2 = channel_data_after_translation
              [of sample_validate twilio_opts quiet_logic plain_sms_request fresh_response
                  plain_sms_activity postback_event postback_activity "[]"]
  have t1: "js_prop (channelData media_activity) ''botkitEventType'' = JStr ''picture_message''"
    and t2: "js_prop (channelData media_activity) ''Body'' = js_prop (body (sms_request ''good'')) ''Body''"
    using w1 sms_calls sms_has_media b1 by simp_all
  have t3: "channelData plain_sms_activity = body plain_sms_request"
    using w2 plain_sms_calls plain_sms_no_media b2 by simp
  have f1: "js_prop (channelData (text_activity ''hi'')) ''recipient''
              = js_prop (text_message ''hi'') ''recipient''"
    and f2: "js_prop (channelData (text_activity ''hi'')) ''sender''
              = js_prop (text_message ''hi'') ''sender''"
    and f3: "js_prop (channelData (text_activity ''hi'')) ''text''
              = js_prop (js_prop (text_message ''hi'') ''message'') ''text''"
    using w1 text_message_handed k1 s1 by simp_all
  have f4: "channelData postback_activity = postback_event"
    using w2 postback_handed k2 s2 by simp
  show ?thesis
    using sms_calls sms_has_media b1 b2 plain_sms_calls plain_sms_no_media
          text_message_handed postback_handed k1 k2 s2 t1 t2 t3 f1 f2 f3 f4
    by simp
qed

subsection \<open>Round trip\<close>

lemma activityToFacebook_fields:
  "activityToFacebook a = Inr out \<Longrightarrow>
     fb_recipient_id out = conversation_id a \<and> fb_text out = act_text a"
  by (auto simp: activityToFacebook_def Let_def bindE_Inr_iff split: if_splits jsval.splits)

lemma facebook_inbound_ids:
  assumes "facebook_inbound message = Inr a"
  shows "conversation_id a = from_id a"
    and "truthy (js_prop message ''sender'') \<longrightarrow>
           conversation_id a = js_prop (js_prop message ''sender'') ''id''"
    and "truthy (js_prop message ''message'') \<longrightarrow>
           act_text a = js_prop (js_prop message ''message'') ''text''"
proof -
  from assms obtain m where b: "facebook_backfill message = Inr m"
    and c: "conversation_id a = js_prop (js_prop m ''sender'') ''id''"
    and f: "from_id a = js_prop (js_prop m ''sender'') ''id''"
    and t: "act_text a =
           (if truthy (js_prop m ''message'') then js_prop (js_prop m ''message'') ''text''
            else if truthy (js_prop m ''postback'')
            then js_prop (js_prop m ''postback'') ''payload'' else JNull)"
    by (rule facebook_inbound_cases)
  show "conversation_id a = from_id a" using c f by simp
  show "truthy (js_prop message ''sender'') \<longrightarrow>
           conversation_id a = js_prop (js_prop message ''sender'') ''id''"
    using c facebook_backfill_sender[OF b] by simp
  show "truthy (js_prop message ''message'') \<longrightarrow>
           act_text a = js_prop (js_prop message ''message'') ''text''"
    using t facebook_backfill_other[OF b, of "''message''"] by simp
qed

lemma twilio_calls_member:
  assumes m: "a \<in> set (calls (twilio_processActivity validate opts lg req res))"
  shows "twilio_inbound (body req) = Inr a"
proof (cases "twilio_inbound (body req)")
  case (Inl e)
  then have "calls (twilio_processActivity validate opts lg req res) = []"
    by (simp add: twilio_calls_cases)
  with m show ?thesis by simp
next
  case (Inr x)
  then have "calls (twilio_processActivity validate opts lg req res) = [x]
             \<or> calls (twilio_processActivity validate opts lg req res) = []"
    by (simp add: twilio_calls_cases)
  with m Inr show ?thesis by auto
qed

text \<open>
  C8. Feeding the activity built from an inbound payload to the outbound translator of
  the same adapter gives back the text and the sender as the target. Twilio: the
  outbound \<open>body\<close> is the inbound \<open>Body\<close> and the outbound \<open>to\<close> is the conversation
  id, which is the inbound \<open>From\<close>. Facebook: the outbound \<open>message.text\<close> is the
  activity's text, which is the text of the inbound \<open>message\<close>, and the outbound
  \<open>recipient.id\<close> is the conversation id, which is the sender id.
\<close>

theorem inbound_outbound_roundtrip:
  "(a \<in> set (calls (twilio_processActivity validate topts lg req res)) \<longrightarrow>
      msg_body (activityToTwilio topts a) = js_prop (body req) ''Body''
      \<and> msg_to (activityToTwilio topts a) = conversation_id a
      \<and> conversation_id a = js_prop (body req) ''From'')
   \<and> (snd (processSingleMessage lg message []) = [b] \<and> activityToFacebook b = Inr out \<longrightarrow>
      fb_text out = act_text b
      \<and> fb_recipient_id out = conversation_id b
      \<and> conversation_id b = from_id b
      \<and> (truthy (js_prop message ''sender'') \<longrightarrow>
            conversation_id b = js_prop (js_prop message ''sender'') ''id'')
      \<and> (truthy (js_prop message ''message'') \<longrightarrow>
            act_text b = js_prop (js_prop message ''message'') ''text''))"
proof (intro conjI impI)
  assume m: "a \<in> set (calls (twilio_processActivity validate topts lg req res))"
  then have i: "twilio_inbound (body req) = Inr a"
    by (rule twilio_calls_member)
  show "msg_body (activityToTwilio topts a) = js_prop (body req) ''Body''"
    using twilio_inbound_fields(5)[OF i] by (simp add: activityToTwilio_def)
  show "msg_to (activityToTwilio topts a) = conversation_id a"
    by (simp add: activityToTwilio_def)
  show "conversation_id a = js_prop (body req) ''From''"
    using twilio_inbound_fields(2)[OF i] by simp
next
  assume h: "snd (processSingleMessage lg message []) = [b] \<and> activityToFacebook b = Inr out"
  then have i: "facebook_inbound message = Inr b" and o: "activityToFacebook b = Inr out"
    using processSingleMessage_handed by blast+
  show "fb_text out = act_text b" "fb_recipient_id out = conversation_id b"
    using activityToFacebook_fields[OF o] by simp_all
  show "conversation_id b = from_id b" using facebook_inbound_ids(1)[OF i] by simp
  {
    assume "truthy (js_prop message ''sender'')"
    then show "conversation_id b = js_prop (js_prop message ''sender'') ''id''"
      using facebook_inbound_ids(2)[OF i] by simp
  }
  {
    assume "truthy (js_prop message ''message'')"
    then show "act_text b = js_prop (js_prop message ''message'') ''text''"
      using facebook_inbound_ids(3)[OF i] by simp
  }
qed

lemma text_activity_outbound: "activityToFacebook (text_activity ''hi'') = Inr text_reply"
  by (simp add: activityToFacebook_def text_activity_def text_reply_def cd_field_def Let_def)

theorem inbound_outbound_roundtrip_witness:
  "media_activity \<in> set (calls (twilio_processActivity sample_validate twilio_opts quiet_logic
                            (sms_request ''good'') fresh_response))
   \<and> js_prop (body (sms_request ''good'')) ''Body'' = JStr ''hi''
   \<and> js_prop (body (sms_request ''good'')) ''From'' = JStr ''+15551234567''
   \<and> msg_body (activityToTwilio twilio_opts media_activity) = JStr ''hi''
   \<and> msg_to (activityToTwilio twilio_opts media_activity) = JStr ''+15551234567''
   \<and> snd (processSingleMessage quiet_logic (text_message ''hi'') []) = [text_activity ''hi'']
   \<and> activityToFacebook (text_activity ''hi'') = Inr text_reply
   \<and> js_prop (js_prop (text_message ''hi'') ''sender'') ''id'' = JStr ''USER''
   \<and> js_prop (js_prop (text_message ''hi'') ''message'') ''text'' = JStr ''hi''
   \<and> fb_text text_reply = JStr ''hi''
   \<and> fb_recipient_id text_reply = JStr ''USER''"
proof -
  have c: "media_activity \<in> set (calls (twilio_processActivity sample_validate twilio_opts
             quiet_logic (sms_request ''good'') fresh_response))"
    by (simp add: sms_calls)
  have p: "js_prop (body (sms_request ''good'')) ''Body'' = JStr ''hi''"
          "js_prop (body (sms_request ''good'')) ''From'' = JStr ''+15551234567''"
    by (simp_all add: sms_request_def sms_event_def)
  have q: "truthy (js_prop (text_message ''hi'') ''sender'')"
          "truthy (js_prop (text_message ''hi'') ''message'')"
          "js_prop (js_prop (text_message ''hi'') ''sender'') ''id'' = JStr ''USER''"
          "js_prop (js_prop (text_message ''hi'') ''message'') ''text'' = JStr ''hi''"
    by (simp_all add: text_message_def)
  note w = inbound_outbound_roundtrip
             [of media_activity sample_validate twilio_opts quiet_logic "sms_request ''good''"
                 fresh_response "text_message ''hi''" "text_activity ''hi''" text_reply]
  have "msg_body (activityToTwilio twilio_opts media_activity) = JStr ''hi''"
       "msg_to (activityToTwilio twilio_opts media_activity) = JStr ''+15551234567''"
    using w c p by simp_all
  moreover have "fb_text text_reply = JStr ''hi''" "fb_recipient_id text_reply = JStr ''USER''"
    using w text_message_handed text_activity_outbound q by auto
  ultimately show ?thesis
    using c p q text_message_handed text_activity_outbound by simp
qed

subsection \<open>Outbound sends\<close>





















subsection \<open>Page credentials\<close>

lemma echo_inbound: "facebook_inbound echo_message = Inr echo_activity"
  by (simp add: facebook_inbound_def facebook_backfill_def getp_def echo_message_def
        echo_activity_def Let_def)

lemma is_echo_activity_iff:
  "is_echo_activity a =
     (js_prop (js_prop (channelData a) ''message'') ''is_echo'' = JBool True)"
proof -
  have m: "truthy v" if "js_prop v k = JBool True" for v k
    using that by (cases v) (auto split: option.splits if_splits)
  have t: "truthy v" if "truthy (js_prop v k)" for v k
    using that by (cases v) (auto split: option.splits if_splits)
  show ?thesis
    unfolding is_echo_activity_def using m t by blast
qed

text \<open>
  C10. Without a static access token, and for an activity that has a recipient id,
  \<open>getAPI\<close> asks \<open>getAccessTokenForPage\<close> for the token of the recipient id, or of
  the sender id when \<open>channelData.message.is_echo\<close> is \<open>true\<close>; a rejection of
  that callback is passed on, an empty or missing token makes it throw
  \<open>Missing credentials for page.\<close>, and any other token gives the client built on it.
\<close>

theorem getAPI_multi_tenancy:
  assumes "\<not> truthy_str (access_token opts)"
      and "getAccessTokenForPage opts = Some lookup"
      and "truthy (recipient_id a)"
  shows "getAPI opts a =
           (case lookup (if js_prop (js_prop (channelData a) ''message'') ''is_echo'' = JBool True
                         then from_id a else recipient_id a) of
              Inl e \<Rightarrow> Inl e
            | Inr token \<Rightarrow>
                (case token of
                   None \<Rightarrow> Inl (Error ''Missing credentials for page.'')
                 | Some t \<Rightarrow>
                     if t = [] then Inl (Error ''Missing credentials for page.'')
                     else Inr (Some \<lparr>api_token = t, api_secret = app_secret opts,
                                      client_host = api_host opts,
                                      client_version = api_version opts\<rparr>)))"
  using assms
  by (simp add: getAPI_def Let_def is_echo_activity_iff truthy_str_def new_FacebookAPI_def
        split: sum.splits option.splits)

theorem getAPI_multi_tenancy_witness:
  "\<not> truthy_str (access_token multi_opts)
   \<and> getAccessTokenForPage multi_opts = Some page_tokens
   \<and> truthy (recipient_id (text_activity ''hi''))
   \<and> js_prop (js_prop (channelData (text_activity ''hi'')) ''message'') ''is_echo'' = JUndefined
   \<and> page_tokens (recipient_id (text_activity ''hi'')) = Inr (Some ''TOKEN_FOR_PAGE'')
   \<and> getAPI multi_opts (text_activity ''hi'') = Inr (Some page_api)
   \<and> truthy (recipient_id echo_activity)
   \<and> js_prop (js_prop (channelData echo_activity) ''message'') ''is_echo'' = JBool True
   \<and> page_tokens (from_id echo_activity) = Inr (Some ''TOKEN_FOR_PAGE'')
   \<and> getAPI multi_opts echo_activity = Inr (Some page_api)
   \<and> truthy (recipient_id ((text_activity ''hi'')\<lparr>recipient_id := JStr ''OTHER''\<rparr>))
   \<and> page_tokens (JStr ''OTHER'') = Inr None
   \<and> getAPI multi_opts ((text_activity ''hi'')\<lparr>recipient_id := JStr ''OTHER''\<rparr>)
        = Inl (Error ''Missing credentials for page.'')"
proof -
  have o: "\<not> truthy_str (access_token multi_opts)"
    and l: "getAccessTokenForPage multi_opts = Some page_tokens"
    by (simp_all add: multi_opts_def truthy_str_def)
  have f: "app_secret multi_opts = ''s3cr3t''" "api_host multi_opts = ''graph.facebook.com''"
          "api_version multi_opts = ''v3.2''"
    by (simp_all add: multi_opts_def facebook_opts_def)
  have r1: "truthy (recipient_id (text_activity ''hi''))"
    and e1: "js_prop (js_prop (channelData (text_activity ''hi'')) ''message'') ''is_echo''
               = JUndefined"
    and p1: "page_tokens (recipient_id (text_activity ''hi'')) = Inr (Some ''TOKEN_FOR_PAGE'')"
    by (simp_all add: text_activity_def page_tokens_def)
  have r2: "truthy (recipient_id echo_activity)"
    and e2: "js_prop (js_prop (channelData echo_activity) ''message'') ''is_echo'' = JBool True"
    and p2: "page_tokens (from_id echo_activity) = Inr (Some ''TOKEN_FOR_PAGE'')"
    by (simp_all add: echo_activity_def page_tokens_def)
  let ?other = "(text_activity ''hi'')\<lparr>recipient_id := JStr ''OTHER''\<rparr>"
  have r3: "truthy (recipient_id ?other)"
    and e3: "js_prop (js_prop (channelData ?other) ''message'') ''is_echo'' = JUndefined"
    and p3: "page_tokens (JStr ''OTHER'') = Inr None"
    by (simp_all add: text_activity_def page_tokens_def)
  have g1: "getAPI multi_opts (text_activity ''hi'') = Inr (Some page_api)"
    using getAPI_multi_tenancy [OF o l r1] e1 p1 f by (simp add: page_api_def)
  have g2: "getAPI multi_opts echo_activity = Inr (Some page_api)"
    using getAPI_multi_tenancy [OF o l r2] e2 p2 f by (simp add: page_api_def)
  have g3: "getAPI multi_opts ?other = Inl (Error ''Missing credentials for page.'')"
    using getAPI_multi_tenancy [OF o l r3] e3 p3 by simp
  show ?thesis
    using o l r1 e1 p1 g1 r2 e2 p2 g2 r3 p3 g3 by simp
qed

end
